theory Spec2Isabelle
  imports Main "HOL-Library.Word"
begin

section \<open>The free store and the container's fields\<close>

text \<open>
  The container is \<^verbatim>\<open>rvec::rope_vector<T, ChunkSize>\<close>. Its index type \<^verbatim>\<open>size_type\<close> is
  \<^verbatim>\<open>std::size_t\<close>, a 64-bit unsigned integer whose arithmetic wraps around. The template
  parameter \<^verbatim>\<open>ChunkSize\<close> is the argument \<open>cs\<close> of every operation below, the value
  \<^verbatim>\<open>sizeof(T)\<close> is the argument \<open>esz\<close> of \<open>memory_used\<close>, and the value \<^verbatim>\<open>T{}\<close> is the
  argument \<open>dflt\<close> of \<open>resize\<close>. The class divides by \<^verbatim>\<open>ChunkSize\<close>, so 0 is no meaningful
  chunk size; the callers evaluated below use 2, 4 and the default 256.

  A chunk is an array made by \<^verbatim>\<open>new T[ChunkSize]\<close>. The free store is a list of blocks and a
  chunk pointer \<^verbatim>\<open>T*\<close> is the position of its block in that list. A block that was given
  back with \<^verbatim>\<open>delete[]\<close> is \<open>Released\<close>. A slot of a live block is \<open>None\<close> as long as nothing
  was assigned to it after \<^verbatim>\<open>new T[ChunkSize]\<close>.

  What the C++ standard leaves undefined is a failure of the model: a subscript of the
  \<^verbatim>\<open>chunks\<close> vector beyond its size, a read or write through a pointer to a released block,
  a second \<^verbatim>\<open>delete[]\<close> of the same block. A failed \<^verbatim>\<open>assert\<close> aborts the process when
  assertions are compiled in (\<open>dbg = True\<close>) and is no check at all under \<^verbatim>\<open>NDEBUG\<close>
  (\<open>dbg = False\<close>).
\<close>

type_synonym size_type = "64 word"

type_synonym addr = nat

datatype failure =
    AssertionFailed
  | OutOfRange
  | BadSubscript
  | BadPointer
  | UseAfterFree
  | DoubleFree
  | OutOfFuel

datatype 'a block = Live "size_type \<Rightarrow> 'a option" | Released

record 'a rope_vector =
  store :: "'a block list"
  chunks :: "addr list"
  total_size :: size_type
  start_index :: size_type
  front_chunk_index :: size_type

definition empty_vector :: "'a rope_vector" where
  "empty_vector =
     \<lparr>store = [], chunks = [], total_size = 0, start_index = 0, front_chunk_index = 0\<rparr>"

text \<open>Sequencing of two steps, the second of which runs only when the first did not fail.\<close>

definition and_then :: "failure + 'b \<Rightarrow> ('b \<Rightarrow> failure + 'c) \<Rightarrow> failure + 'c" where
  "and_then r f = (case r of Inl e \<Rightarrow> Inl e | Inr x \<Rightarrow> f x)"

definition cassert :: "bool \<Rightarrow> bool \<Rightarrow> failure + unit" where
  "cassert dbg cond = (if dbg \<and> \<not> cond then Inl AssertionFailed else Inr ())"

section \<open>ChunkStore\<close>

definition chunk_index :: "size_type \<Rightarrow> size_type \<Rightarrow> size_type" where
  "chunk_index cs i = i div cs"

definition within_chunk_index :: "size_type \<Rightarrow> size_type \<Rightarrow> size_type" where
  "within_chunk_index cs i = i mod cs"

definition allocate_chunk :: "'a rope_vector \<Rightarrow> addr \<times> 'a rope_vector" where
  "allocate_chunk s = (length (store s), s\<lparr>store := store s @ [Live (\<lambda>_. None)]\<rparr>)"

definition free_chunk :: "addr \<Rightarrow> 'a rope_vector \<Rightarrow> failure + 'a rope_vector" where
  "free_chunk a s =
     (if a < length (store s)
      then (case store s ! a of
              Live m \<Rightarrow> Inr (s\<lparr>store := (store s)[a := Released]\<rparr>)
            | Released \<Rightarrow> Inl DoubleFree)
      else Inl BadPointer)"

text \<open>
  \<^verbatim>\<open>while (i >= chunks.size() * ChunkSize) chunks.emplace_back(allocate_chunk());\<close>
  The loop has no bound of its own, so it runs on fuel: one unit for each chunk it may
  allocate. \<open>OutOfFuel\<close> says that the loop condition still held when the fuel was used up.
\<close>

fun ensure_capacity_for ::
  "nat \<Rightarrow> size_type \<Rightarrow> size_type \<Rightarrow> 'a rope_vector \<Rightarrow> failure + 'a rope_vector" where
  "ensure_capacity_for 0 cs i s =
     (if i \<ge> of_nat (length (chunks s)) * cs then Inl OutOfFuel else Inr s)"
| "ensure_capacity_for (Suc fuel) cs i s =
     (if i \<ge> of_nat (length (chunks s)) * cs
      then (case allocate_chunk s of
              (a, s') \<Rightarrow> ensure_capacity_for fuel cs i (s'\<lparr>chunks := chunks s' @ [a]\<rparr>))
      else Inr s)"

definition grow_front :: "size_type \<Rightarrow> 'a rope_vector \<Rightarrow> 'a rope_vector" where
  "grow_front cs s =
     (case allocate_chunk s of
        (a, s') \<Rightarrow> s'\<lparr>chunks := a # chunks s',
                       start_index := start_index s' + cs,
                       front_chunk_index := front_chunk_index s' + 1\<rparr>)"

text \<open>The destructor and \<open>clear\<close> both walk the chunk vector and free every entry.\<close>

fun free_all :: "addr list \<Rightarrow> 'a rope_vector \<Rightarrow> failure + 'a rope_vector" where
  "free_all [] s = Inr s"
| "free_all (a # as) s = and_then (free_chunk a s) (free_all as)"

definition destructor :: "'a rope_vector \<Rightarrow> failure + 'a rope_vector" where
  "destructor s = free_all (chunks s) s"

section \<open>IndexTranslator\<close>

text \<open>
  \<^verbatim>\<open>operator[]\<close> returns a reference: here the block and the slot it refers to.
  \<open>load\<close> and \<open>assign\<close> read and write through such a reference.
\<close>

definition subscript ::
  "bool \<Rightarrow> size_type \<Rightarrow> 'a rope_vector \<Rightarrow> size_type \<Rightarrow> failure + (addr \<times> size_type)" where
  "subscript dbg cs s i =
     and_then (cassert dbg (i < total_size s))
       (\<lambda>_. let real_index = start_index s + i;
                k = unat (front_chunk_index s + chunk_index cs real_index)
            in if k < length (chunks s)
               then Inr (chunks s ! k, within_chunk_index cs real_index)
               else Inl BadSubscript)"

definition load :: "'a rope_vector \<Rightarrow> addr \<times> size_type \<Rightarrow> failure + 'a option" where
  "load s r =
     (case r of (a, off) \<Rightarrow>
        if a < length (store s)
        then (case store s ! a of Live m \<Rightarrow> Inr (m off) | Released \<Rightarrow> Inl UseAfterFree)
        else Inl BadPointer)"

definition assign ::
  "'a rope_vector \<Rightarrow> addr \<times> size_type \<Rightarrow> 'a option \<Rightarrow> failure + 'a rope_vector" where
  "assign s r v =
     (case r of (a, off) \<Rightarrow>
        if a < length (store s)
        then (case store s ! a of
                Live m \<Rightarrow> Inr (s\<lparr>store := (store s)[a := Live (m(off := v))]\<rparr>)
              | Released \<Rightarrow> Inl UseAfterFree)
        else Inl BadPointer)"

text \<open>Reading \<^verbatim>\<open>(*this)[i]\<close>, and the statement \<^verbatim>\<open>(*this)[i] = std::move((*this)[j])\<close>, whose
  right operand is evaluated first. The moved-from slot keeps its value, as it does for
  a trivially copyable \<^verbatim>\<open>T\<close>.\<close>

definition get :: "bool \<Rightarrow> size_type \<Rightarrow> 'a rope_vector \<Rightarrow> size_type \<Rightarrow> failure + 'a option" where
  "get dbg cs s i = and_then (subscript dbg cs s i) (load s)"

definition put ::
  "bool \<Rightarrow> size_type \<Rightarrow> 'a rope_vector \<Rightarrow> size_type \<Rightarrow> 'a option \<Rightarrow> failure + 'a rope_vector" where
  "put dbg cs s i v = and_then (subscript dbg cs s i) (\<lambda>r. assign s r v)"

definition move_elem ::
  "bool \<Rightarrow> size_type \<Rightarrow> 'a rope_vector \<Rightarrow> size_type \<Rightarrow> size_type \<Rightarrow> failure + 'a rope_vector" where
  "move_elem dbg cs s i j =
     and_then (subscript dbg cs s j) (\<lambda>src.
     and_then (subscript dbg cs s i) (\<lambda>dst.
     and_then (load s src) (\<lambda>v. assign s dst v)))"

text \<open>The logical sequence as a caller reads it: \<open>n\<close> elements from index \<open>i\<close> on.\<close>

fun view_from ::
  "bool \<Rightarrow> size_type \<Rightarrow> 'a rope_vector \<Rightarrow> size_type \<Rightarrow> nat \<Rightarrow> (failure + 'a option) list" where
  "view_from dbg cs s i 0 = []"
| "view_from dbg cs s i (Suc n) = get dbg cs s i # view_from dbg cs s (i + 1) n"

definition view :: "bool \<Rightarrow> size_type \<Rightarrow> 'a rope_vector \<Rightarrow> (failure + 'a option) list" where
  "view dbg cs s = view_from dbg cs s 0 (unat (total_size s))"

section \<open>SequenceOps\<close>

definition size_rv :: "'a rope_vector \<Rightarrow> size_type" where
  "size_rv s = total_size s"

definition empty_rv :: "'a rope_vector \<Rightarrow> bool" where
  "empty_rv s = (total_size s = 0)"

definition memory_used :: "size_type \<Rightarrow> size_type \<Rightarrow> 'a rope_vector \<Rightarrow> size_type" where
  "memory_used cs esz s = of_nat (length (chunks s)) * cs * esz"

definition capacity :: "size_type \<Rightarrow> 'a rope_vector \<Rightarrow> size_type" where
  "capacity cs s =
     (of_nat (length (chunks s)) - front_chunk_index s) * cs - start_index s"

definition at :: "bool \<Rightarrow> size_type \<Rightarrow> 'a rope_vector \<Rightarrow> size_type \<Rightarrow> failure + 'a option" where
  "at dbg cs s i = and_then (cassert dbg (i < total_size s)) (\<lambda>_. get dbg cs s i)"

definition front :: "bool \<Rightarrow> size_type \<Rightarrow> 'a rope_vector \<Rightarrow> failure + 'a option" where
  "front dbg cs s = and_then (cassert dbg (\<not> empty_rv s)) (\<lambda>_. get dbg cs s 0)"

definition back_rv :: "bool \<Rightarrow> size_type \<Rightarrow> 'a rope_vector \<Rightarrow> failure + 'a option" where
  "back_rv dbg cs s =
     and_then (cassert dbg (\<not> empty_rv s)) (\<lambda>_. get dbg cs s (total_size s - 1))"

definition clear :: "'a rope_vector \<Rightarrow> failure + 'a rope_vector" where
  "clear s =
     and_then (free_all (chunks s) s)
       (\<lambda>s'. Inr (s'\<lparr>chunks := [], total_size := 0, start_index := 0,
                      front_chunk_index := 0\<rparr>))"

text \<open>
  \<open>resize\<close>: the argument handed to \<open>ensure_capacity_for\<close> is
  \<^verbatim>\<open>start_index + new_size - 1\<close>, and the fill loop writes
  \<^verbatim>\<open>chunks[chunk_index(i)][within_chunk_index(i)] = T{}\<close> for \<open>i\<close> from \<open>total_size\<close> up to
  \<open>new_size\<close>, subscripting the vector directly.
\<close>

definition resize_target :: "'a rope_vector \<Rightarrow> size_type \<Rightarrow> size_type" where
  "resize_target s new_size = start_index s + new_size - 1"

fun resize_fill ::
  "size_type \<Rightarrow> 'a \<Rightarrow> nat \<Rightarrow> size_type \<Rightarrow> 'a rope_vector \<Rightarrow> failure + 'a rope_vector" where
  "resize_fill cs dflt 0 i s = Inr s"
| "resize_fill cs dflt (Suc n) i s =
     (let k = unat (chunk_index cs i)
      in if k < length (chunks s)
         then and_then (assign s (chunks s ! k, within_chunk_index cs i) (Some dflt))
                (resize_fill cs dflt n (i + 1))
         else Inl BadSubscript)"

definition resize ::
  "nat \<Rightarrow> size_type \<Rightarrow> 'a \<Rightarrow> 'a rope_vector \<Rightarrow> size_type \<Rightarrow> failure + 'a rope_vector" where
  "resize fuel cs dflt s new_size =
     (if new_size < total_size s then Inr (s\<lparr>total_size := new_size\<rparr>)
      else and_then (ensure_capacity_for fuel cs (resize_target s new_size) s) (\<lambda>s1.
           and_then (resize_fill cs dflt (unat new_size - unat (total_size s1)) (total_size s1) s1)
             (\<lambda>s2. Inr (s2\<lparr>total_size := new_size\<rparr>))))"

definition reserve ::
  "nat \<Rightarrow> size_type \<Rightarrow> 'a rope_vector \<Rightarrow> size_type \<Rightarrow> failure + 'a rope_vector" where
  "reserve fuel cs s n =
     (if n > capacity cs s then ensure_capacity_for fuel cs (start_index s + n - 1) s
      else Inr s)"

definition required_chunks :: "size_type \<Rightarrow> 'a rope_vector \<Rightarrow> size_type" where
  "required_chunks cs s =
     chunk_index cs (start_index s + total_size s)
       + (if within_chunk_index cs (start_index s + total_size s) \<noteq> 0 then 1 else 0)"

function shrink_loop :: "size_type \<Rightarrow> 'a rope_vector \<Rightarrow> failure + 'a rope_vector" where
  "shrink_loop req s =
     (if of_nat (length (chunks s)) > req
      then (case free_chunk (last (chunks s)) s of
              Inl e \<Rightarrow> Inl e
            | Inr s' \<Rightarrow> shrink_loop req (s'\<lparr>chunks := butlast (chunks s)\<rparr>))
      else Inr s)"
  by pat_completeness auto
termination
  by (relation "measure (\<lambda>(req, s). length (chunks s))") (auto simp: neq_Nil_conv [symmetric] intro!: diff_less)

declare shrink_loop.simps [simp del]

definition shrink_to_fit :: "size_type \<Rightarrow> 'a rope_vector \<Rightarrow> failure + 'a rope_vector" where
  "shrink_to_fit cs s = shrink_loop (required_chunks cs s) s"

definition push_back ::
  "nat \<Rightarrow> bool \<Rightarrow> size_type \<Rightarrow> 'a rope_vector \<Rightarrow> 'a \<Rightarrow> failure + 'a rope_vector" where
  "push_back fuel dbg cs s v =
     and_then (ensure_capacity_for fuel cs (start_index s + total_size s) s) (\<lambda>s1.
       put dbg cs (s1\<lparr>total_size := total_size s1 + 1\<rparr>) (total_size s1) (Some v))"

text \<open>The two shifting loops of \<open>insert\<close> and the one of \<open>erase\<close>, \<open>n\<close> iterations left.\<close>

fun shift_down ::
  "bool \<Rightarrow> size_type \<Rightarrow> nat \<Rightarrow> size_type \<Rightarrow> 'a rope_vector \<Rightarrow> failure + 'a rope_vector" where
  "shift_down dbg cs 0 i s = Inr s"
| "shift_down dbg cs (Suc n) i s =
     and_then (move_elem dbg cs s i (i + 1)) (shift_down dbg cs n (i + 1))"

fun shift_up ::
  "bool \<Rightarrow> size_type \<Rightarrow> nat \<Rightarrow> size_type \<Rightarrow> 'a rope_vector \<Rightarrow> failure + 'a rope_vector" where
  "shift_up dbg cs 0 i s = Inr s"
| "shift_up dbg cs (Suc n) i s =
     and_then (move_elem dbg cs s i (i - 1)) (shift_up dbg cs n (i - 1))"

definition open_front :: "size_type \<Rightarrow> 'a rope_vector \<Rightarrow> 'a rope_vector" where
  "open_front cs s =
     (let s1 = (if start_index s = 0 then grow_front cs s else s)
      in s1\<lparr>start_index := start_index s1 - 1, total_size := total_size s1 + 1\<rparr>)"

definition insert_rv ::
  "nat \<Rightarrow> bool \<Rightarrow> size_type \<Rightarrow> 'a rope_vector \<Rightarrow> size_type \<Rightarrow> 'a \<Rightarrow> failure + 'a rope_vector" where
  "insert_rv fuel dbg cs s pos v =
     and_then (cassert dbg (pos \<le> total_size s)) (\<lambda>_.
     and_then (ensure_capacity_for fuel cs (start_index s + total_size s) s) (\<lambda>s1.
       if pos = 0 then put dbg cs (open_front cs s1) 0 (Some v)
       else if pos = total_size s1 then push_back fuel dbg cs s1 v
       else if pos < total_size s1 div 2
       then and_then (shift_down dbg cs (unat pos) 0 (open_front cs s1))
              (\<lambda>s2. put dbg cs s2 pos (Some v))
       else and_then (shift_up dbg cs (unat (total_size s1) - unat pos) (total_size s1) s1)
              (\<lambda>s2. and_then (put dbg cs s2 pos (Some v))
                (\<lambda>s3. Inr (s3\<lparr>total_size := total_size s3 + 1\<rparr>)))))"

definition erase ::
  "bool \<Rightarrow> size_type \<Rightarrow> 'a rope_vector \<Rightarrow> size_type \<Rightarrow> failure + 'a rope_vector" where
  "erase dbg cs s pos =
     and_then (cassert dbg (pos < total_size s)) (\<lambda>_.
     and_then (shift_down dbg cs (unat (total_size s - 1) - unat pos) pos s)
       (\<lambda>s1. Inr (s1\<lparr>total_size := total_size s1 - 1\<rparr>)))"

definition erase_front ::
  "bool \<Rightarrow> size_type \<Rightarrow> 'a rope_vector \<Rightarrow> failure + 'a rope_vector" where
  "erase_front dbg cs s =
     and_then (cassert dbg (\<not> empty_rv s)) (\<lambda>_.
       let s1 = s\<lparr>start_index := start_index s + 1, total_size := total_size s - 1\<rparr>
       in if start_index s1 \<ge> cs
          then (let k = unat (front_chunk_index s1)
                in if k < length (chunks s1)
                   then and_then (free_chunk (chunks s1 ! k) s1)
                          (\<lambda>s2. Inr (s2\<lparr>front_chunk_index := front_chunk_index s2 + 1,
                                          start_index := start_index s2 - cs\<rparr>))
                   else Inl BadSubscript)
          else Inr s1)"

section \<open>The checked accessors of the earlier header\<close>

text \<open>
  \<^verbatim>\<open>include/rvec/rope_vector.hpp\<close> is an earlier state of the same class. It has the fields
  \<^verbatim>\<open>chunks\<close> and \<^verbatim>\<open>total_size\<close> only, so its operations never read \<open>start_index\<close> or
  \<open>front_chunk_index\<close>. Its \<^verbatim>\<open>at\<close>, \<^verbatim>\<open>front\<close> and \<^verbatim>\<open>back\<close> throw \<^verbatim>\<open>std::out_of_range\<close>
  (the failure \<open>OutOfRange\<close>) where the later header asserts.
\<close>

definition hpp_subscript ::
  "bool \<Rightarrow> size_type \<Rightarrow> 'a rope_vector \<Rightarrow> size_type \<Rightarrow> failure + (addr \<times> size_type)" where
  "hpp_subscript dbg cs s i =
     and_then (cassert dbg (i < total_size s))
       (\<lambda>_. let k = unat (chunk_index cs i)
            in if k < length (chunks s)
               then Inr (chunks s ! k, within_chunk_index cs i)
               else Inl BadSubscript)"

definition hpp_get ::
  "bool \<Rightarrow> size_type \<Rightarrow> 'a rope_vector \<Rightarrow> size_type \<Rightarrow> failure + 'a option" where
  "hpp_get dbg cs s i = and_then (hpp_subscript dbg cs s i) (load s)"

definition hpp_at ::
  "bool \<Rightarrow> size_type \<Rightarrow> 'a rope_vector \<Rightarrow> size_type \<Rightarrow> failure + 'a option" where
  "hpp_at dbg cs s i = (if i \<ge> total_size s then Inl OutOfRange else hpp_get dbg cs s i)"

definition hpp_front :: "bool \<Rightarrow> size_type \<Rightarrow> 'a rope_vector \<Rightarrow> failure + 'a option" where
  "hpp_front dbg cs s = (if empty_rv s then Inl OutOfRange else hpp_get dbg cs s 0)"

definition hpp_back :: "bool \<Rightarrow> size_type \<Rightarrow> 'a rope_vector \<Rightarrow> failure + 'a option" where
  "hpp_back dbg cs s =
     (if empty_rv s then Inl OutOfRange else hpp_get dbg cs s (total_size s - 1))"

section \<open>Callers\<close>

text \<open>
  A caller is a list of calls of the public operations, run one after the other on one
  container; the run stops at the first failure. \<open>run_view\<close> starts from the
  default-constructed container and reads the whole logical sequence at the end.
\<close>

datatype 'a call =
    PushBack 'a
  | Insert size_type 'a
  | Erase size_type
  | EraseFront
  | Resize size_type
  | Reserve size_type
  | ShrinkToFit
  | Clear

fun perform ::
  "nat \<Rightarrow> bool \<Rightarrow> size_type \<Rightarrow> 'a \<Rightarrow> 'a rope_vector \<Rightarrow> 'a call \<Rightarrow> failure + 'a rope_vector" where
  "perform fuel dbg cs dflt s (PushBack v) = push_back fuel dbg cs s v"
| "perform fuel dbg cs dflt s (Insert pos v) = insert_rv fuel dbg cs s pos v"
| "perform fuel dbg cs dflt s (Erase pos) = erase dbg cs s pos"
| "perform fuel dbg cs dflt s EraseFront = erase_front dbg cs s"
| "perform fuel dbg cs dflt s (Resize n) = resize fuel cs dflt s n"
| "perform fuel dbg cs dflt s (Reserve n) = reserve fuel cs s n"
| "perform fuel dbg cs dflt s ShrinkToFit = shrink_to_fit cs s"
| "perform fuel dbg cs dflt s Clear = clear s"

fun run ::
  "nat \<Rightarrow> bool \<Rightarrow> size_type \<Rightarrow> 'a \<Rightarrow> 'a rope_vector \<Rightarrow> 'a call list \<Rightarrow> failure + 'a rope_vector" where
  "run fuel dbg cs dflt s [] = Inr s"
| "run fuel dbg cs dflt s (c # cs') =
     and_then (perform fuel dbg cs dflt s c) (\<lambda>s'. run fuel dbg cs dflt s' cs')"

definition run_view ::
  "nat \<Rightarrow> bool \<Rightarrow> size_type \<Rightarrow> 'a \<Rightarrow> 'a call list \<Rightarrow> failure + (failure + 'a option) list" where
  "run_view fuel dbg cs dflt calls =
     and_then (run fuel dbg cs dflt empty_vector calls) (\<lambda>s. Inr (view dbg cs s))"

text \<open>
  A chunk pointer is live when its block has been allocated and not given back. \<open>release_all\<close>
  is what freeing every pointer of a list does to the free store.
\<close>

definition live :: "'a rope_vector \<Rightarrow> addr \<Rightarrow> bool" where
  "live s a = (a < length (store s) \<and> store s ! a \<noteq> Released)"

definition release_all :: "addr list \<Rightarrow> 'a block list \<Rightarrow> 'a block list" where
  "release_all as st = fold (\<lambda>a st'. st'[a := Released]) as st"

section \<open>Evaluation of the model on concrete callers\<close>

lemma ensure_capacity_for_numeral:
  "ensure_capacity_for (numeral k) cs i s =
     (if i \<ge> of_nat (length (chunks s)) * cs
      then (case allocate_chunk s of
              (a, s') \<Rightarrow> ensure_capacity_for (pred_numeral k) cs i (s'\<lparr>chunks := chunks s' @ [a]\<rparr>))
      else Inr s)"
  by (simp add: numeral_eq_Suc)

lemma view_from_numeral:
  "view_from dbg cs s i (numeral k) =
     get dbg cs s i # view_from dbg cs s (i + 1) (pred_numeral k)"
  by (simp add: numeral_eq_Suc)

lemma shift_down_numeral:
  "shift_down dbg cs (numeral k) i s =
     and_then (move_elem dbg cs s i (i + 1)) (shift_down dbg cs (pred_numeral k) (i + 1))"
  by (simp add: numeral_eq_Suc)

lemma shift_up_numeral:
  "shift_up dbg cs (numeral k) i s =
     and_then (move_elem dbg cs s i (i - 1)) (shift_up dbg cs (pred_numeral k) (i - 1))"
  by (simp add: numeral_eq_Suc)

lemma resize_fill_numeral:
  "resize_fill cs dflt (numeral k) i s =
     (let j = unat (chunk_index cs i)
      in if j < length (chunks s)
         then and_then (assign s (chunks s ! j, within_chunk_index cs i) (Some dflt))
                (resize_fill cs dflt (pred_numeral k) (i + 1))
         else Inl BadSubscript)"
  by (simp add: numeral_eq_Suc)

lemmas eval_defs =
  run_view_def view_def and_then_def cassert_def push_back_def insert_rv_def erase_def
  erase_front_def put_def get_def move_elem_def subscript_def load_def assign_def
  allocate_chunk_def free_chunk_def grow_front_def open_front_def chunk_index_def
  within_chunk_index_def empty_vector_def empty_rv_def size_rv_def Let_def resize_def
  resize_target_def reserve_def capacity_def shrink_to_fit_def required_chunks_def
  shrink_loop.simps clear_def destructor_def memory_used_def
  word_le_nat_alt word_less_nat_alt
  ensure_capacity_for_numeral view_from_numeral shift_down_numeral shift_up_numeral
  resize_fill_numeral

section \<open>Front growth\<close>

text \<open>
  C1. The claim: \<open>grow_front\<close> prepends a chunk and adjusts \<open>front_chunk_index\<close> and
  \<open>start_index\<close> so that every live logical index resolves to the value it held before, and
  therefore \<open>insert(0, 5)\<close> on the container holding 10, 20, 30 gives 5, 10, 20, 30 with
  size 4.

  The code does not do this. \<open>grow_front\<close> adds \<open>ChunkSize\<close> to \<open>start_index\<close> and also
  increments \<open>front_chunk_index\<close>, while the subscript operator adds both
  \<open>front_chunk_index\<close> and \<open>chunk_index (start_index + i)\<close>: each old element is looked up
  one chunk too far. With the default chunk size 256 and the container built by three
  \<open>push_back\<close> calls (first conjunct), every index resolves to \<open>chunks[2]\<close> of a
  two-element vector after \<open>grow_front\<close> (second conjunct), and after \<open>insert(0, 5)\<close> index 0
  reads 5 while the indices 1, 2 and 3 are subscripts beyond the vector (third conjunct),
  with assertions compiled in or not. The size is 4 as claimed.
\<close>

theorem C1_grow_front_misresolves:
  "run_view 1 dbg 256 0 [PushBack (10::int), PushBack 20, PushBack 30]
     = Inr [Inr (Some 10), Inr (Some 20), Inr (Some 30)]
   \<and> and_then (run 1 dbg 256 0 empty_vector [PushBack (10::int), PushBack 20, PushBack 30])
        (\<lambda>s. Inr (view dbg 256 (grow_front 256 s)))
     = Inr [Inl BadSubscript, Inl BadSubscript, Inl BadSubscript]
   \<and> run_view 1 dbg 256 0 [PushBack (10::int), PushBack 20, PushBack 30, Insert 0 5]
     = Inr [Inr (Some 5), Inl BadSubscript, Inl BadSubscript, Inl BadSubscript]
   \<and> and_then (run 1 dbg 256 0 empty_vector
                  [PushBack (10::int), PushBack 20, PushBack 30, Insert 0 5])
        (\<lambda>s. Inr (size_rv s))
     = Inr 4"
  by (simp add: eval_defs)

section \<open>Chunk ownership\<close>

text \<open>
  C2. The claim: every allocated chunk is released exactly once over the lifetime of the
  container, by \<open>erase_front\<close> when \<open>start_index\<close> crosses a chunk boundary or by the
  destructor, and never twice.

  \<open>erase_front\<close> frees \<open>chunks[front_chunk_index]\<close> and leaves the pointer in the vector;
  the destructor frees every pointer of the vector. With chunk size 2, two \<open>push_back\<close> and
  two \<open>erase_front\<close> calls leave the one chunk released and still listed (first conjunct),
  and the destructor then releases it a second time (second conjunct).
\<close>

theorem C2_destructor_releases_twice:
  "run 1 dbg 2 0 empty_vector [PushBack (1::int), PushBack 2, EraseFront, EraseFront]
     = Inr \<lparr>store = [Released], chunks = [0], total_size = 0, start_index = 0,
            front_chunk_index = 1\<rparr>
   \<and> and_then (run 1 dbg 2 0 empty_vector
                  [PushBack (1::int), PushBack 2, EraseFront, EraseFront]) destructor
     = Inl DoubleFree"
  by (simp add: eval_defs)

section \<open>Insertion followed by erasure\<close>

text \<open>
  C3. The claim: for every state and every position \<open>pos \<le> size()\<close>, \<open>insert(pos, v)\<close>
  followed by \<open>erase(pos)\<close> restores the sequence.

  At position 0 of the container holding 10, 20, 30 the insertion goes through
  \<open>grow_front\<close>, after which the indices 1 to 3 resolve beyond the chunk vector; the shifting
  loop of \<open>erase(0)\<close> reads index 1 and the run ends there (first conjunct). In the rear half,
  the shifting loop of \<open>insert\<close> starts with \<open>(*this)[total_size]\<close>, which the assertion of the
  subscript operator rejects when assertions are compiled in (second conjunct); under
  \<^verbatim>\<open>NDEBUG\<close> the same round trip does restore the sequence (third conjunct).
\<close>

theorem C3_insert_erase_front_fails:
  "run_view 1 dbg 256 0 [PushBack (10::int), PushBack 20, PushBack 30, Insert 0 5, Erase 0]
     = Inl BadSubscript
   \<and> run_view 1 True 256 0 [PushBack (10::int), PushBack 20, PushBack 30, Insert 2 99]
     = Inl AssertionFailed
   \<and> run_view 1 False 256 0
        [PushBack (10::int), PushBack 20, PushBack 30, Insert 2 99, Erase 2]
     = Inr [Inr (Some 10), Inr (Some 20), Inr (Some 30)]"
  by (simp add: eval_defs)

section \<open>Trimming\<close>

text \<open>
  C4. The claim: \<open>shrink_to_fit\<close> releases only trailing chunks that the logical extent does
  not need and never a chunk holding a live element, also when \<open>front_chunk_index\<close> or
  \<open>start_index\<close> is not zero.

  \<open>required_chunks\<close> is computed from \<open>start_index + total_size\<close> alone and compared with
  the length of the whole vector, which still counts the chunks in front of
  \<open>front_chunk_index\<close>. With chunk size 2, after three \<open>push_back\<close> and two \<open>erase_front\<close>
  calls the container holds the single element 3 in its second chunk (first two
  conjuncts). \<open>shrink_to_fit\<close> then releases exactly that chunk (third conjunct), and
  index 0 no longer resolves (fourth conjunct). The size stays 1.
\<close>

theorem C4_shrink_releases_live_chunk:
  "run 1 dbg 2 0 empty_vector
       [PushBack (1::int), PushBack 2, PushBack 3, EraseFront, EraseFront]
     = Inr \<lparr>store = [Released, Live ((\<lambda>_. None)(0 := Some 3))], chunks = [0, 1],
            total_size = 1, start_index = 0, front_chunk_index = 1\<rparr>
   \<and> run_view 1 dbg 2 0 [PushBack (1::int), PushBack 2, PushBack 3, EraseFront, EraseFront]
     = Inr [Inr (Some 3)]
   \<and> run 1 dbg 2 0 empty_vector
       [PushBack (1::int), PushBack 2, PushBack 3, EraseFront, EraseFront, ShrinkToFit]
     = Inr \<lparr>store = [Released, Released], chunks = [0], total_size = 1, start_index = 0,
            front_chunk_index = 1\<rparr>
   \<and> run_view 1 dbg 2 0
       [PushBack (1::int), PushBack 2, PushBack 3, EraseFront, EraseFront, ShrinkToFit]
     = Inr [Inl BadSubscript]"
  by (simp add: eval_defs)

text \<open>The scenario of the same claim, for chunk size 2: six elements fill three chunks, and
  \<open>shrink_to_fit\<close> leaves the capacity at 6.\<close>

lemma shrink_to_fit_three_full_chunks:
  "and_then (run 1 dbg 2 0 empty_vector
               [PushBack (1::int), PushBack 2, PushBack 3, PushBack 4, PushBack 5, PushBack 6,
                ShrinkToFit])
     (\<lambda>s. Inr (capacity 2 s, size_rv s, length (chunks s)))
   = Inr (6, 6, 3)"
  by (simp add: eval_defs)

section \<open>Memory accounting\<close>

text \<open>\<open>memory_used\<close> counts every entry of the chunk vector; the part in front of
  \<open>front_chunk_index\<close> is what it has in excess of the reserved chunks.\<close>

lemma memory_used_excess:
  "memory_used cs esz s =
     (of_nat (length (chunks s)) - front_chunk_index s) * cs * esz
       + front_chunk_index s * cs * esz"
  by (simp add: memory_used_def algebra_simps)

text \<open>
  C5. The claim: \<open>memory_used()\<close> is \<open>(|ChunkArray| - FrontChunkIndex) * ChunkSize *
  element_size\<close>, the bytes of the chunks from the first live chunk on.

  The code multiplies the length of the whole vector. With chunk size 2 and 4-byte
  elements, after two \<open>push_back\<close> and two \<open>erase_front\<close> calls the only chunk has been
  released, the claimed formula gives 0 and \<open>memory_used\<close> returns 8.
\<close>

theorem C5_memory_used_counts_released_chunk:
  "and_then (run 1 dbg 2 0 empty_vector
               [PushBack (1::int), PushBack 2, EraseFront, EraseFront])
     (\<lambda>s. Inr (memory_used 2 4 s,
                (of_nat (length (chunks s)) - front_chunk_index s) * 2 * 4,
                store s))
   = Inr (8, 0, [Released])"
  by (simp add: eval_defs)

section \<open>Resizing\<close>

text \<open>
  C6. The claim: \<open>resize(n)\<close> with \<open>n > size()\<close> fills the logical slots \<open>size()\<close> to
  \<open>n - 1\<close> with a default value and leaves the first \<open>size()\<close> elements as they were.

  The fill loop writes \<open>chunks[chunk_index(i)][within_chunk_index(i)]\<close> for the logical
  index \<open>i\<close> itself, without \<open>start_index\<close> and \<open>front_chunk_index\<close>. With chunk size 4,
  after three \<open>push_back\<close> calls and one \<open>erase_front\<close> the container holds 2, 3 (first
  conjunct); \<open>resize(3)\<close> then overwrites the element 3 with the default value 0 and leaves
  the new last slot unassigned (second conjunct).
\<close>

theorem C6_resize_overwrites_live_element:
  "run_view 1 dbg 4 0 [PushBack (1::int), PushBack 2, PushBack 3, EraseFront]
     = Inr [Inr (Some 2), Inr (Some 3)]
   \<and> run_view 1 dbg 4 0 [PushBack (1::int), PushBack 2, PushBack 3, EraseFront, Resize 3]
     = Inr [Inr (Some 2), Inr (Some 0), Inr None]"
  by (simp add: eval_defs)

section \<open>Capacity\<close>

text \<open>
  C7. The claim: \<open>capacity() \<ge> size()\<close> after every sequence of public operations, and
  after \<open>reserve(n)\<close> the capacity is at least \<open>n\<close>.

  After \<open>insert(0, 5)\<close> on the container holding 10, 20, 30 (chunk size 256) the vector
  has two chunks, \<open>front_chunk_index\<close> is 1 and \<open>start_index\<close> is 255: the capacity is 1 and
  the size is 4 (first conjunct). With chunk size 2, after two \<open>push_back\<close> and two
  \<open>erase_front\<close> calls \<open>front_chunk_index\<close> is 1; \<open>reserve(1)\<close> asks
  \<open>ensure_capacity_for\<close> for position 0, which one listed chunk already covers, so nothing
  is allocated and the capacity stays 0 (second conjunct).
\<close>

theorem C7_capacity_below_size_and_request:
  "and_then (run 1 dbg 256 0 empty_vector
               [PushBack (10::int), PushBack 20, PushBack 30, Insert 0 5])
     (\<lambda>s. Inr (capacity 256 s, size_rv s))
   = Inr (1, 4)
   \<and> and_then (run 1 dbg 2 0 empty_vector
                  [PushBack (1::int), PushBack 2, EraseFront, EraseFront, Reserve 1])
        (\<lambda>s. Inr (capacity 2 s))
     = Inr 0"
  by (simp add: eval_defs)

section \<open>Checked access\<close>

lemma get_not_OutOfRange: "get dbg cs s i \<noteq> Inl OutOfRange"
  by (auto simp: get_def subscript_def load_def and_then_def cassert_def Let_def
      split: sum.splits block.splits if_splits)

lemma hpp_get_not_OutOfRange: "hpp_get dbg cs s i \<noteq> Inl OutOfRange"
  by (auto simp: hpp_get_def hpp_subscript_def load_def and_then_def cassert_def Let_def
      split: sum.splits block.splits if_splits)

lemma get_in_range_not_AssertionFailed:
  "i < total_size s \<Longrightarrow> get True cs s i \<noteq> Inl AssertionFailed"
  by (auto simp: get_def subscript_def load_def and_then_def cassert_def Let_def
      split: sum.splits block.splits if_splits)

text \<open>
  C8. The claim: \<open>at(i)\<close> fails with a recoverable \<open>OutOfRange\<close> error exactly when
  \<open>i \<ge> size()\<close>, \<open>front()\<close> and \<open>back()\<close> fail with a recoverable \<open>EmptyContainer\<close> error
  exactly when the container is empty, and the failure is not a process termination.

  In the later header the three accessors assert. On the default-constructed container
  with assertions compiled in, \<open>at(0)\<close>, \<open>front()\<close> and \<open>back()\<close> abort; under \<^verbatim>\<open>NDEBUG\<close>
  nothing is checked and \<open>at(0)\<close> subscripts the empty chunk vector.
\<close>

theorem C8_later_header_asserts:
  "size_rv (empty_vector :: int rope_vector) = 0
   \<and> at True 256 (empty_vector :: int rope_vector) 0 = Inl AssertionFailed
   \<and> front True 256 (empty_vector :: int rope_vector) = Inl AssertionFailed
   \<and> back_rv True 256 (empty_vector :: int rope_vector) = Inl AssertionFailed
   \<and> at False 256 (empty_vector :: int rope_vector) 0 = Inl BadSubscript
   \<and> at True 256 (empty_vector :: int rope_vector) 0 \<noteq> Inl OutOfRange"
  by (simp add: at_def front_def back_rv_def and_then_def cassert_def get_def subscript_def
      empty_vector_def empty_rv_def size_rv_def chunk_index_def)

text \<open>
  C8 as amended. In \<^verbatim>\<open>include/rvec/rope_vector.hpp\<close>, \<open>at(i)\<close> throws \<^verbatim>\<open>std::out_of_range\<close>
  exactly when \<open>i \<ge> size()\<close>, and \<open>front()\<close> and \<open>back()\<close> throw the same exception exactly
  when \<open>size() = 0\<close>; the accessors only read, so the container is as it was. In the later
  header the same conditions are assertions: with assertions compiled in the accessors
  abort exactly under these conditions, under \<^verbatim>\<open>NDEBUG\<close> they are the unchecked subscript,
  and in neither case do they raise \<open>OutOfRange\<close>.
\<close>

theorem C8_checked_access_by_header:
  "(hpp_at dbg cs s i = Inl OutOfRange) = (size_rv s \<le> i)
   \<and> (hpp_front dbg cs s = Inl OutOfRange) = (size_rv s = 0)
   \<and> (hpp_back dbg cs s = Inl OutOfRange) = (size_rv s = 0)
   \<and> (at True cs s i = Inl AssertionFailed) = (size_rv s \<le> i)
   \<and> (front True cs s = Inl AssertionFailed) = (size_rv s = 0)
   \<and> (back_rv True cs s = Inl AssertionFailed) = (size_rv s = 0)
   \<and> at False cs s i = get False cs s i
   \<and> front False cs s = get False cs s 0
   \<and> back_rv False cs s = get False cs s (size_rv s - 1)
   \<and> at dbg cs s i \<noteq> Inl OutOfRange
   \<and> front dbg cs s \<noteq> Inl OutOfRange
   \<and> back_rv dbg cs s \<noteq> Inl OutOfRange"
proof -
  have pred: "total_size s - 1 < total_size s" if "total_size s \<noteq> 0"
    using that
    by (simp add: word_less_nat_alt unat_minus_one unat_gt_0 [symmetric] word_neq_0_conv)
  have first: "get True cs s 0 \<noteq> Inl AssertionFailed" if "total_size s \<noteq> 0"
    using that by (intro get_in_range_not_AssertionFailed) (simp add: word_neq_0_conv)
  have last: "get True cs s (total_size s - 1) \<noteq> Inl AssertionFailed"
    if "total_size s \<noteq> 0"
    using that by (intro get_in_range_not_AssertionFailed pred)
  show ?thesis
    using first last
    by (auto simp: hpp_at_def hpp_front_def hpp_back_def at_def front_def back_rv_def
        size_rv_def empty_rv_def hpp_get_not_OutOfRange get_not_OutOfRange and_then_def
        cassert_def get_in_range_not_AssertionFailed)
qed

section \<open>Resizing the empty container to zero\<close>

lemma ensure_capacity_for_wrapped:
  "ensure_capacity_for fuel cs (- 1) s = Inl OutOfFuel"
  by (induction fuel arbitrary: s) (simp_all add: allocate_chunk_def)

text \<open>
  C9. On the default-constructed container \<open>resize(0)\<close> is not a no-op. The test
  \<open>new_size < total_size\<close> is false, so the growing branch is taken (first conjunct). The
  argument of \<open>ensure_capacity_for\<close>, \<open>start_index + new_size - 1\<close>, wraps to the largest
  \<open>size_type\<close> value \<open>2 ^ 64 - 1\<close> (second and third conjunct). The loop condition
  \<open>i \<ge> chunks.size() * ChunkSize\<close> then holds for every number of chunks and every chunk
  size (fourth conjunct), so the allocation loop never leaves by its condition: whatever
  the fuel, it is used up (fifth conjunct), and \<open>resize(0)\<close> does not return the container
  (sixth conjunct).
\<close>

theorem C9_resize_zero_on_empty_wraps:
  "\<not> (0 < total_size (empty_vector :: 'a rope_vector))
   \<and> resize_target (empty_vector :: 'a rope_vector) 0 = - 1
   \<and> unat (resize_target (empty_vector :: 'a rope_vector) 0) = 2 ^ 64 - 1
   \<and> (\<forall>n. of_nat n * cs \<le> resize_target (empty_vector :: 'a rope_vector) 0)
   \<and> ensure_capacity_for fuel cs (resize_target (empty_vector :: 'a rope_vector) 0)
        (empty_vector :: 'a rope_vector) = Inl OutOfFuel
   \<and> resize fuel cs dflt (empty_vector :: 'a rope_vector) 0 = Inl OutOfFuel"
  by (simp add: resize_def resize_target_def empty_vector_def and_then_def
      ensure_capacity_for_wrapped unsigned_minus_1_eq_mask mask_eq_exp_minus_1)

section \<open>Clearing\<close>

lemma free_chunk_live:
  "live s a \<Longrightarrow> free_chunk a s = Inr (s\<lparr>store := (store s)[a := Released]\<rparr>)"
  by (cases "store s ! a") (simp_all add: live_def free_chunk_def)

lemma free_all_live:
  "distinct as \<Longrightarrow> list_all (live s) as \<Longrightarrow>
   free_all as s = Inr (s\<lparr>store := release_all as (store s)\<rparr>)"
proof (induction as arbitrary: s)
  case Nil
  then show ?case by (simp add: release_all_def)
next
  case (Cons a as)
  let ?s = "s\<lparr>store := (store s)[a := Released]\<rparr>"
  from Cons.prems have a: "live s a" and rest: "list_all (live s) as"
    and d: "distinct as" "a \<notin> set as"
    by simp_all
  have "list_all (live ?s) as"
    using rest d(2) by (auto simp: list_all_iff live_def) (metis nth_list_update_neq)
  with Cons.IH [OF d(1), of ?s] a show ?case
    by (simp add: free_chunk_live and_then_def release_all_def)
qed

lemma release_all_length: "length (release_all as st) = length st"
  unfolding release_all_def by (induction as arbitrary: st) simp_all

lemma release_all_nth:
  "a < length st \<Longrightarrow> release_all as st ! a = (if a \<in> set as then Released else st ! a)"
  unfolding release_all_def
  by (induction as arbitrary: st) (auto simp: nth_list_update)

text \<open>On a container whose chunk pointers are all live and distinct, \<open>clear\<close> releases each
  of them, empties the vector and resets the three counters; capacity and memory use are
  then 0.\<close>

lemma clear_live:
  assumes "distinct (chunks s)" and "list_all (live s) (chunks s)"
  shows "clear s = Inr \<lparr>store = release_all (chunks s) (store s), chunks = [],
                        total_size = 0, start_index = 0, front_chunk_index = 0\<rparr>"
  using free_all_live [OF assms] by (simp add: clear_def and_then_def)

lemma cleared_observers:
  "size_rv \<lparr>store = st, chunks = [], total_size = 0, start_index = 0,
            front_chunk_index = 0\<rparr> = 0
   \<and> empty_rv \<lparr>store = st, chunks = [], total_size = 0, start_index = 0,
               front_chunk_index = 0\<rparr>
   \<and> capacity cs \<lparr>store = st, chunks = [], total_size = 0, start_index = 0,
                  front_chunk_index = 0\<rparr> = 0
   \<and> memory_used cs esz \<lparr>store = st, chunks = [], total_size = 0, start_index = 0,
                         front_chunk_index = 0\<rparr> = 0"
  by (simp add: size_rv_def empty_rv_def capacity_def memory_used_def)

text \<open>
  C10. The claim: \<open>clear()\<close> releases every chunk handle of the vector, empties the vector
  and resets the counters, so that afterwards size, capacity and memory use are 0.

  \<open>clear\<close> frees every pointer of the vector, also one that \<open>erase_front\<close> has released
  already. With chunk size 2, after two \<open>push_back\<close> and two \<open>erase_front\<close> calls the vector
  lists its one chunk, which is released (first conjunct); \<open>clear\<close> releases it a second
  time and does not reach the empty state (second conjunct).
\<close>

theorem C10_clear_releases_twice:
  "run 1 dbg 2 0 empty_vector [PushBack (1::int), PushBack 2, EraseFront, EraseFront]
     = Inr \<lparr>store = [Released], chunks = [0], total_size = 0, start_index = 0,
            front_chunk_index = 1\<rparr>
   \<and> run 1 dbg 2 0 empty_vector
        [PushBack (1::int), PushBack 2, EraseFront, EraseFront, Clear]
     = Inl DoubleFree"
  by (simp add: eval_defs)

end
